theory Spec2Isabelle
  imports Main "HOL-Library.Sublist"
begin

section \<open>Python values and exceptions\<close>

text \<open>
  A Python \<open>str\<close> is a sequence of Unicode code points, so it is modelled as a list of
  natural numbers, one per code point (\<open>len\<close> is \<open>length\<close>, slicing is \<open>take\<close>).
  String literals of the source are written \<open>u ''...''\<close>.
\<close>

type_synonym pystr = "nat list"

abbreviation (input) u :: "string \<Rightarrow> pystr" where
  "u s \<equiv> map of_char s"

text \<open>
  The values that \<open>response.json()\<close> can produce, and \<open>None\<close>. A \<open>dict\<close> decoded
  from JSON has string keys; it is an association list read with \<open>map_of\<close>. A float is
  kept as a mantissa and an exponent: no function of the module computes with it.
\<close>

datatype pyval =
    PNone
  | PBool bool
  | PInt int
  | PFloat int int
  | PStr pystr
  | PList "pyval list"
  | PDict "(pystr \<times> pyval) list"

text \<open>
  Exceptions carry their class and the text \<open>str(e)\<close>. Subclasses are merged into the
  class that the handlers of the module name: every exception of \<open>requests\<close> is a
  \<open>RequestException\<close>; \<open>WaitTimeoutError\<close>, \<open>UnknownValueError\<close> and
  \<open>RequestError\<close> are those of \<open>speech_recognition\<close>. \<open>KeyboardInterrupt\<close> stands
  for the exceptions that derive from \<open>BaseException\<close> only, which
  \<open>except Exception\<close> does not catch.
\<close>

datatype exn_class =
    KeyboardInterrupt
  | RequestException
  | KeyError
  | IndexError
  | TypeError
  | AttributeError
  | WaitTimeoutError
  | UnknownValueError
  | RequestError
  | OtherException

datatype exn = Exn exn_class pystr

fun class_of :: "exn \<Rightarrow> exn_class" where
  "class_of (Exn c m) = c"

fun str_exn :: "exn \<Rightarrow> pystr" where
  "str_exn (Exn c m) = m"

definition is_Exception :: "exn \<Rightarrow> bool" where
  "is_Exception e = (class_of e \<noteq> KeyboardInterrupt)"

text \<open>The name of the type of a value, and a text between single quotes, for messages.\<close>

fun type_name :: "pyval \<Rightarrow> string" where
  "type_name PNone = ''NoneType''"
| "type_name (PBool b) = ''bool''"
| "type_name (PInt i) = ''int''"
| "type_name (PFloat m e) = ''float''"
| "type_name (PStr s) = ''str''"
| "type_name (PList xs) = ''list''"
| "type_name (PDict d) = ''dict''"

definition quoted :: "pystr \<Rightarrow> pystr" where
  "quoted s = [39] @ s @ [39]"

text \<open>The decimal text of an integer, as \<open>str\<close> and an f-string write it.\<close>

function str_nat :: "nat \<Rightarrow> pystr" where
  "str_nat n = (if n < 10 then [48 + n] else str_nat (n div 10) @ [48 + n mod 10])"
  by pat_completeness auto
termination
  by (relation "measure id") auto

definition str_int :: "int \<Rightarrow> pystr" where
  "str_int i = (if i < 0 then u ''-'' @ str_nat (nat (- i)) else str_nat (nat i))"

section \<open>normalize\_text\<close>

text \<open>
  \<open>normalize_text\<close> calls \<open>str.lower\<close>, \<open>unicodedata.normalize('NFKD', _)\<close> and
  \<open>unicodedata.combining\<close>. Their tables belong to the Python runtime (the Unicode
  Character Database), not to the repository, so they are a parameter:
  \<^item> \<open>str_lower\<close> is \<open>str.lower\<close> (a function of the whole string: the lowercase of a
    capital sigma depends on its position, and one code point may become two);
  \<^item> \<open>full_decomp\<close> is the full compatibility decomposition of a code point
    (a code point that has none maps to itself);
  \<^item> \<open>combining\<close> is the canonical combining class, \<open>unicodedata.combining\<close>.
\<close>

record ucd =
  str_lower :: "pystr \<Rightarrow> pystr"
  full_decomp :: "nat \<Rightarrow> pystr"
  combining :: "nat \<Rightarrow> nat"

text \<open>
  NFKD replaces every code point by its full compatibility decomposition and then puts
  the combining marks in canonical order: as in CPython's \<open>nfd_nfkd\<close>, a mark whose
  class is smaller than that of the mark before it moves left, past every mark of a
  greater class, and never past a code point of class zero. \<open>insert_mark\<close> works on the
  reversed prefix that is already in order.
\<close>

fun insert_mark :: "(nat \<Rightarrow> nat) \<Rightarrow> nat \<Rightarrow> pystr \<Rightarrow> pystr" where
  "insert_mark ccc c [] = [c]"
| "insert_mark ccc c (p # ps) =
     (if ccc p = 0 \<or> ccc c = 0 \<or> ccc p \<le> ccc c then c # p # ps
      else p # insert_mark ccc c ps)"

definition canonical_order :: "(nat \<Rightarrow> nat) \<Rightarrow> pystr \<Rightarrow> pystr" where
  "canonical_order ccc s = rev (fold (insert_mark ccc) s [])"

definition nfkd :: "ucd \<Rightarrow> pystr \<Rightarrow> pystr" where
  "nfkd U s = canonical_order (combining U) (concat (map (full_decomp U) s))"

text \<open>
  The function takes any Python value: \<open>None\<close> is returned as it is, a \<open>str\<close> is
  normalised, and any other value has no method \<open>lower\<close>, which is an
  \<open>AttributeError\<close>.
\<close>

definition normalize_text :: "ucd \<Rightarrow> pyval \<Rightarrow> exn + pyval" where
  "normalize_text U text =
     (case text of
        PNone \<Rightarrow> Inr PNone
      | PStr t \<Rightarrow>
          (let normalized = nfkd U (str_lower U t);
               normalized = filter (\<lambda>c. \<not> (combining U c \<noteq> 0)) normalized
           in Inr (PStr normalized))
      | v \<Rightarrow>
          Inl (Exn AttributeError
            (quoted (u (type_name v)) @ u '' object has no attribute '' @ quoted (u ''lower''))))"

text \<open>
  An excerpt of the Unicode Character Database (version 14, the one of CPython 3.11), for
  the witnesses. It is exact on the code points U+0020 to U+007E, U+00C9, U+00E9, U+0301
  and U+2122, on which \<open>str.lower\<close> works code point by code point; every other code
  point is taken as caseless, without decomposition and of combining class zero, so only
  statements about strings of the listed code points speak about Python.
\<close>

definition excerpt_lower_cp :: "nat \<Rightarrow> nat" where
  "excerpt_lower_cp c =
     (if 65 \<le> c \<and> c \<le> 90 then c + 32 else if c = 201 then 233 else c)"

definition excerpt_decomp :: "nat \<Rightarrow> pystr" where
  "excerpt_decomp c =
     (if c = 233 then [101, 769] else if c = 8482 then [84, 77] else [c])"

definition excerpt_combining :: "nat \<Rightarrow> nat" where
  "excerpt_combining c = (if c = 769 then 230 else 0)"

definition ucd_excerpt :: ucd where
  "ucd_excerpt =
     \<lparr> str_lower = map excerpt_lower_cp,
       full_decomp = excerpt_decomp,
       combining = excerpt_combining \<rparr>"

section \<open>Operations of the interpreter on decoded values\<close>

text \<open>
  The expressions \<open>k in v\<close>, \<open>v[k]\<close>, \<open>len(v)\<close> and \<open>v[i]\<close> of the source, on every
  value that \<open>response.json()\<close> can return, with the exception the interpreter raises
  where the operation is not defined. The message texts are those of CPython 3.11; no
  statement below depends on the wording of a \<open>TypeError\<close>.
\<close>

fun py_contains :: "pystr \<Rightarrow> pyval \<Rightarrow> exn + bool" where
  "py_contains k (PDict d) = Inr (map_of d k \<noteq> None)"
| "py_contains k (PList xs) = Inr (PStr k \<in> set xs)"
| "py_contains k (PStr s) = Inr (sublist k s)"
| "py_contains k v =
     Inl (Exn TypeError
       (u ''argument of type '' @ quoted (u (type_name v)) @ u '' is not iterable''))"

fun py_getitem :: "pyval \<Rightarrow> pystr \<Rightarrow> exn + pyval" where
  "py_getitem (PDict d) k =
     (case map_of d k of Some v \<Rightarrow> Inr v | None \<Rightarrow> Inl (Exn KeyError (quoted k)))"
| "py_getitem (PList xs) k =
     Inl (Exn TypeError (u ''list indices must be integers or slices, not str''))"
| "py_getitem (PStr s) k =
     Inl (Exn TypeError (u ''string indices must be integers, not '' @ quoted (u ''str'')))"
| "py_getitem v k =
     Inl (Exn TypeError (quoted (u (type_name v)) @ u '' object is not subscriptable''))"

fun py_len :: "pyval \<Rightarrow> exn + nat" where
  "py_len (PDict d) = Inr (length (remdups (map fst d)))"
| "py_len (PList xs) = Inr (length xs)"
| "py_len (PStr s) = Inr (length s)"
| "py_len v =
     Inl (Exn TypeError
       (u ''object of type '' @ quoted (u (type_name v)) @ u '' has no len()''))"

fun py_index :: "pyval \<Rightarrow> nat \<Rightarrow> exn + pyval" where
  "py_index (PList xs) i =
     (if i < length xs then Inr (xs ! i)
      else Inl (Exn IndexError (u ''list index out of range'')))"
| "py_index (PStr s) i =
     (if i < length s then Inr (PStr [s ! i])
      else Inl (Exn IndexError (u ''string index out of range'')))"
| "py_index (PDict d) i = Inl (Exn KeyError (str_nat i))"
| "py_index v i =
     Inl (Exn TypeError (quoted (u (type_name v)) @ u '' object is not subscriptable''))"

text \<open>Sequencing of two steps, the first of which may raise.\<close>

definition bnd :: "exn + 'a \<Rightarrow> ('a \<Rightarrow> exn + 'b) \<Rightarrow> exn + 'b" where
  "bnd m f = (case m of Inl e \<Rightarrow> Inl e | Inr x \<Rightarrow> f x)"

section \<open>translate\_text\<close>

definition API_KEY :: pystr where
  "API_KEY = u ''86dd78dd-1b69-451c-a701-773312d7bfc8:fx''"

definition API_URL :: pystr where
  "API_URL = u ''https://api-free.deepl.com/v2/translate''"

text \<open>
  The network is the parameter \<open>post\<close>: \<open>requests.post(url, data=params, timeout=t)\<close>
  either raises or returns a response, whose \<open>raise_for_status()\<close> raises or not and
  whose \<open>json()\<close> raises or returns the decoded body.
\<close>

record response =
  raise_for_status :: "exn option"
  json :: "exn + pyval"

type_synonym requests_post = "pystr \<Rightarrow> (pystr \<times> pystr) list \<Rightarrow> nat \<Rightarrow> exn + response"

definition request_params :: "pystr \<Rightarrow> pystr \<Rightarrow> pystr \<Rightarrow> (pystr \<times> pystr) list" where
  "request_params api_key text target_language =
     [(u ''auth_key'', api_key), (u ''text'', text), (u ''target_lang'', target_language)]"

text \<open>
  The condition \<open>'translations' in data and len(data['translations']) > 0\<close>; the
  second operand is evaluated only when the first is true.
\<close>

definition has_translations :: "pyval \<Rightarrow> exn + bool" where
  "has_translations data =
     bnd (py_contains (u ''translations'') data) (\<lambda>present.
       if \<not> present then Inr False
       else bnd (py_getitem data (u ''translations'')) (\<lambda>ts.
            bnd (py_len ts) (\<lambda>n. Inr (n > 0))))"

text \<open>The expression \<open>data['translations'][0]['text']\<close>.\<close>

definition first_translation_text :: "pyval \<Rightarrow> exn + pyval" where
  "first_translation_text data =
     bnd (py_getitem data (u ''translations'')) (\<lambda>ts.
     bnd (py_index ts 0) (\<lambda>candidate.
     py_getitem candidate (u ''text'')))"

text \<open>The body of the \<open>try\<close> statement.\<close>

definition translate_request :: "requests_post \<Rightarrow> (pystr \<times> pystr) list \<Rightarrow> exn + pyval" where
  "translate_request post params =
     bnd (post API_URL params 10) (\<lambda>response.
       case raise_for_status response of
         Some e \<Rightarrow> Inl e
       | None \<Rightarrow>
           bnd (json response) (\<lambda>data.
           bnd (has_translations data) (\<lambda>ok.
             if ok then first_translation_text data
             else Inr (PStr (u ''[Translation Error: Unexpected API response format]'')))))"

text \<open>
  The function with its two handlers. The result is \<open>Inl e\<close> when the exception \<open>e\<close>
  leaves the function and \<open>Inr v\<close> when it returns \<open>v\<close>. What the function prints is
  not part of this model: it has no influence on what is returned or raised.
\<close>

definition translate_text :: "requests_post \<Rightarrow> pystr \<Rightarrow> pystr \<Rightarrow> exn + pyval" where
  "translate_text post text target_language =
     (let api_key = API_KEY in
      if api_key = [] then Inr (PStr (u ''[Translation Error: API key not configured.]''))
      else
        let params = request_params api_key text target_language in
        case translate_request post params of
          Inr v \<Rightarrow> Inr v
        | Inl e \<Rightarrow>
            if class_of e = RequestException
            then Inr (PStr (u ''[Translation Error: '' @ str_exn e @ u '']''))
            else if is_Exception e
            then Inr (PStr (u ''[Error: '' @ str_exn e @ u '']''))
            else Inl e)"

text \<open>
  The shape of a body, in the words of the specification: a JSON object with a list of
  translation candidates under \<open>translations\<close>, each candidate an object with its
  text under \<open>text\<close>.
\<close>

fun candidates :: "pyval \<Rightarrow> pyval list option" where
  "candidates (PDict d) =
     (case map_of d (u ''translations'') of Some (PList cs) \<Rightarrow> Some cs | _ \<Rightarrow> None)"
| "candidates v = None"

fun candidate_text :: "pyval \<Rightarrow> pyval option" where
  "candidate_text (PDict c) = map_of c (u ''text'')"
| "candidate_text v = None"

definition first_candidate_text :: "pyval \<Rightarrow> pyval option" where
  "first_candidate_text data =
     (case candidates data of Some (c # cs) \<Rightarrow> candidate_text c | _ \<Rightarrow> None)"

text \<open>An endpoint that answers with success and the decoded body \<open>data\<close>.\<close>

definition responds_with :: "pyval \<Rightarrow> requests_post" where
  "responds_with data url params timeout =
     Inr \<lparr> raise_for_status = None, json = Inr data \<rparr>"


section \<open>capture\_user\_voice\<close>

text \<open>
  What happens in front of the microphone during one call: a phrase starts after some
  seconds and is recorded, or nobody ever speaks, or the audio stream breaks.
\<close>

datatype 'audio sound = Speech nat 'audio | Silence | StreamError pystr

text \<open>
  Modelled from the spec: \<open>Recognizer.listen(source, timeout, phrase_time_limit)\<close>
  belongs to the library \<open>speech_recognition\<close>, which is not in the repository. The
  specification (4.1 and 5) says that no timeout is configured and that the capture
  blocks indefinitely; the library documents that \<open>timeout\<close> is the longest wait for a
  phrase to start, after which it raises \<open>WaitTimeoutError\<close>, and that with
  \<open>None\<close> there is no wait timeout (its test is \<open>if timeout and elapsed > timeout\<close>,
  so zero means none too). The result is \<open>None\<close> when the call never returns.
  \<open>phrase_time_limit\<close> only cuts a long phrase, which this model does not show.
\<close>

definition sr_listen ::
  "'audio sound \<Rightarrow> nat option \<Rightarrow> nat option \<Rightarrow> (exn + 'audio) option" where
  "sr_listen s timeout phrase_time_limit =
     (let wait = (case timeout of None \<Rightarrow> None | Some t \<Rightarrow> if t = 0 then None else Some t);
          timed_out = Exn WaitTimeoutError
                        (u ''listening timed out while waiting for phrase to start'')
      in case s of
           Speech delay audio \<Rightarrow>
             (case wait of
                None \<Rightarrow> Some (Inr audio)
              | Some t \<Rightarrow> if t < delay then Some (Inl timed_out) else Some (Inr audio))
         | Silence \<Rightarrow>
             (case wait of None \<Rightarrow> None | Some t \<Rightarrow> Some (Inl timed_out))
         | StreamError m \<Rightarrow> Some (Inl (Exn OtherException m)))"

text \<open>
  The other calls into \<open>speech_recognition\<close> are a parameter: entering the
  \<open>with sr.Microphone()\<close> block and \<open>adjust_for_ambient_noise\<close> raise or not,
  \<open>recognize_google\<close> raises or returns the recognised text. The type of the audio is
  left open.
\<close>

record 'audio recognizer_env =
  open_microphone :: "exn option"
  adjust_for_ambient_noise :: "exn option"
  sound :: "'audio sound"
  recognize_google :: "'audio \<Rightarrow> pystr \<Rightarrow> exn + pystr"



section \<open>play\_audio\<close>

text \<open>
  The state that \<open>play_audio\<close> changes: the paths that exist in the file system and
  the lines printed so far, the oldest first.
\<close>

record world =
  files :: "pystr set"
  stdout :: "pystr list"

definition print :: "pystr \<Rightarrow> world \<Rightarrow> world" where
  "print line w = w\<lparr>stdout := stdout w @ [line]\<rparr>"

text \<open>
  \<open>tts.save(path)\<close> opens the file for writing and then streams the audio into it: it
  succeeds, or fails before the file exists, or fails after the file was created.
\<close>

datatype save_outcome = Saved | OpenFailed exn | WriteFailed exn

text \<open>
  The libraries and the operating system are the parameter, one field for each call of
  the source. \<open>get_busy k\<close> is the answer to the poll number \<open>k\<close> of
  \<open>pygame.mixer.music.get_busy()\<close>. \<open>pygame_start\<close> stands for the import of
  \<open>pygame\<close>, \<open>mixer.init()\<close>, \<open>music.load\<close> and \<open>music.play\<close>, which are called
  one after the other with no handler between them; \<open>playsound\<close> for the import of
  \<open>playsound\<close> and the blocking call. \<open>os_remove\<close> either deletes the file or raises
  and leaves it. \<open>time.sleep\<close> has no effect on this state.
\<close>

record audio_env =
  gettempdir :: "exn + pystr"
  time_now :: int
  path_join :: "pystr \<Rightarrow> pystr \<Rightarrow> pystr"
  gTTS :: "pystr \<Rightarrow> pystr \<Rightarrow> exn option"
  tts_save :: "pystr \<Rightarrow> save_outcome"
  os_name :: pystr
  os_system :: "pystr \<Rightarrow> exn option"
  pygame_start :: "pystr \<Rightarrow> exn option"
  get_busy :: "nat \<Rightarrow> exn + bool"
  pygame_quit :: "exn option"
  playsound :: "pystr \<Rightarrow> exn option"
  os_remove :: "pystr \<Rightarrow> exn option"

text \<open>
  The loop \<open>while pygame.mixer.music.get_busy(): time.sleep(0.1)\<close>. It ends when a
  poll answers \<open>False\<close> or raises; it runs forever when every poll answers \<open>True\<close>,
  and then the value is \<open>None\<close>.
\<close>

partial_function (option) wait_while_busy :: "(nat \<Rightarrow> exn + bool) \<Rightarrow> nat \<Rightarrow> exn option option" where
  "wait_while_busy busy k =
     (case busy k of
        Inl e \<Rightarrow> Some (Some e)
      | Inr b \<Rightarrow> if b then wait_while_busy busy (Suc k) else Some None)"

text \<open>The inner \<open>try\<close> of the Windows branch, from the import of \<open>pygame\<close> to \<open>quit\<close>.\<close>

definition pygame_play :: "audio_env \<Rightarrow> pystr \<Rightarrow> exn option option" where
  "pygame_play env temp_filename =
     (case pygame_start env temp_filename of
        Some e \<Rightarrow> Some (Some e)
      | None \<Rightarrow>
          (case wait_while_busy (get_busy env) 0 of
             None \<Rightarrow> None
           | Some (Some e) \<Rightarrow> Some (Some e)
           | Some None \<Rightarrow> Some (pygame_quit env)))"

text \<open>
  The Windows branch with its two handlers: a failure of \<open>pygame\<close> is printed and
  \<open>playsound\<close> is tried; a failure of \<open>playsound\<close> is printed.
\<close>

definition play_windows :: "audio_env \<Rightarrow> pystr \<Rightarrow> world \<Rightarrow> (exn option \<times> world) option" where
  "play_windows env temp_filename w =
     (case pygame_play env temp_filename of
        None \<Rightarrow> None
      | Some None \<Rightarrow> Some (None, w)
      | Some (Some e) \<Rightarrow>
          if is_Exception e then
            (let w = print (u ''Pygame error: '' @ str_exn e) w in
             case playsound env temp_filename of
               None \<Rightarrow> Some (None, w)
             | Some e2 \<Rightarrow>
                 if is_Exception e2
                 then Some (None, print (u ''Audio playback error: '' @ str_exn e2) w)
                 else Some (Some e2, w))
          else Some (Some e, w))"

text \<open>
  The body of the outer \<open>try\<close>. The result holds the exception that left the body, if
  any, the value of \<open>temp_filename\<close> at that moment (\<open>None\<close> until it is assigned)
  and the state.
\<close>

definition synthesize_and_play ::
  "audio_env \<Rightarrow> pystr \<Rightarrow> pystr \<Rightarrow> world \<Rightarrow> (exn option \<times> pystr option \<times> world) option" where
  "synthesize_and_play env text language w =
     (case gettempdir env of
        Inl e \<Rightarrow> Some (Some e, None, w)
      | Inr temp_dir \<Rightarrow>
          (let temp_filename =
                 path_join env temp_dir (u ''speech_'' @ str_int (time_now env) @ u ''.mp3'')
           in
           case gTTS env text language of
             Some e \<Rightarrow> Some (Some e, Some temp_filename, w)
           | None \<Rightarrow>
               (case tts_save env temp_filename of
                  OpenFailed e \<Rightarrow> Some (Some e, Some temp_filename, w)
                | WriteFailed e \<Rightarrow>
                    Some (Some e, Some temp_filename,
                          w\<lparr>files := insert temp_filename (files w)\<rparr>)
                | Saved \<Rightarrow>
                    (let w = w\<lparr>files := insert temp_filename (files w)\<rparr> in
                     if os_name env = u ''posix'' then
                       (case os_system env (u ''mpg123 -q '' @ temp_filename) of
                          Some e \<Rightarrow> Some (Some e, Some temp_filename, w)
                        | None \<Rightarrow> Some (None, Some temp_filename, w))
                     else
                       (case play_windows env temp_filename w of
                          None \<Rightarrow> None
                        | Some (r, w) \<Rightarrow> Some (r, Some temp_filename, w))))))"

text \<open>
  The \<open>finally\<close> block: \<open>if temp_filename and os.path.exists(temp_filename)\<close>, then
  \<open>os.remove\<close>, whose failure is printed.
\<close>

definition remove_temp_file :: "audio_env \<Rightarrow> pystr option \<Rightarrow> world \<Rightarrow> exn option \<times> world" where
  "remove_temp_file env temp_filename w =
     (case temp_filename of
        None \<Rightarrow> (None, w)
      | Some p \<Rightarrow>
          if p \<noteq> [] \<and> p \<in> files w then
            (case os_remove env p of
               None \<Rightarrow> (None, w\<lparr>files := files w - {p}\<rparr>)
             | Some e \<Rightarrow>
                 if is_Exception e
                 then (None, print (u ''Error removing temp file: '' @ str_exn e) w)
                 else (Some e, w))
          else (None, w))"

text \<open>
  The whole function. The result is \<open>None\<close> when the call never returns, and otherwise
  the exception that leaves the function, if any, with the final state. An exception
  raised in the \<open>finally\<close> block replaces the one that was on its way out.
\<close>

definition play_audio ::
  "audio_env \<Rightarrow> pystr \<Rightarrow> pystr \<Rightarrow> bool \<Rightarrow> world \<Rightarrow> (exn option \<times> world) option" where
  "play_audio env text language debug w =
     (let w = (if debug
               then print (u ''Speaking in '' @ language @ u '': '' @ take 30 text
                           @ (if length text > 30 then u ''...'' else [])) w
               else w)
      in
      case synthesize_and_play env text language w of
        None \<Rightarrow> None
      | Some (raised, temp_filename, w) \<Rightarrow>
          (let (pending, w) =
                 (case raised of
                    None \<Rightarrow> (None, w)
                  | Some e \<Rightarrow>
                      if is_Exception e
                      then (None, print (u ''Error generating or playing audio: '' @ str_exn e) w)
                      else (Some e, w));
               (raised_in_finally, w) = remove_temp_file env temp_filename w
           in Some (case raised_in_finally of Some e \<Rightarrow> Some e | None \<Rightarrow> pending, w)))"

text \<open>
  What the statement about \<open>play_audio\<close> needs. \<open>only_errors\<close>: every
  exception the libraries raise derives from \<open>Exception\<close>, as the errors of
  synthesis, playback and the file system do. \<open>playback_ends\<close>: on a system
  that is not \<open>posix\<close> some poll of \<open>get_busy\<close> does not answer
  \<open>True\<close>, so that the polling loop is left. \<open>temp_path\<close> is the path
  that \<open>temp_filename\<close> is assigned, if the call gets that far.
  \<open>cleaned_up\<close> compares the state before and after the call: when no path
  was assigned no file was touched; when \<open>os.remove\<close> works the file is gone;
  when it fails and the file is still there, the last line printed reports the failure.
  \<open>windows_env\<close> is a run for the witness: three polls answer busy, the fourth
  raises, \<open>playsound\<close> plays the file, and the file cannot be removed.
  \<open>posix_env\<close> is a run in which every call works.
\<close>

definition only_errors :: "audio_env \<Rightarrow> bool" where
  "only_errors env \<longleftrightarrow>
     (\<forall>e. gettempdir env = Inl e \<longrightarrow> is_Exception e)
   \<and> (\<forall>t l e. gTTS env t l = Some e \<longrightarrow> is_Exception e)
   \<and> (\<forall>p e. tts_save env p = OpenFailed e \<longrightarrow> is_Exception e)
   \<and> (\<forall>p e. tts_save env p = WriteFailed e \<longrightarrow> is_Exception e)
   \<and> (\<forall>c e. os_system env c = Some e \<longrightarrow> is_Exception e)
   \<and> (\<forall>p e. pygame_start env p = Some e \<longrightarrow> is_Exception e)
   \<and> (\<forall>k e. get_busy env k = Inl e \<longrightarrow> is_Exception e)
   \<and> (\<forall>e. pygame_quit env = Some e \<longrightarrow> is_Exception e)
   \<and> (\<forall>p e. playsound env p = Some e \<longrightarrow> is_Exception e)
   \<and> (\<forall>p e. os_remove env p = Some e \<longrightarrow> is_Exception e)"

definition playback_ends :: "audio_env \<Rightarrow> bool" where
  "playback_ends env \<longleftrightarrow>
     os_name env = u ''posix'' \<or> (\<exists>k. get_busy env k \<noteq> Inr True)"

definition windows_env :: audio_env where
  "windows_env =
     \<lparr> gettempdir = Inr (u ''C:/Temp''),
       time_now = 1700000000,
       path_join = (\<lambda>d n. d @ u ''/'' @ n),
       gTTS = (\<lambda>text lang. None),
       tts_save = (\<lambda>p. Saved),
       os_name = u ''nt'',
       os_system = (\<lambda>c. None),
       pygame_start = (\<lambda>p. None),
       get_busy = (\<lambda>k. if k < 3 then Inr True else Inl (Exn OtherException (u ''mixer not initialized''))),
       pygame_quit = None,
       playsound = (\<lambda>p. None),
       os_remove = (\<lambda>p. Some (Exn OtherException (u ''file is in use''))) \<rparr>"

definition posix_env :: audio_env where
  "posix_env =
     \<lparr> gettempdir = Inr (u ''/tmp''),
       time_now = 1700000000,
       path_join = (\<lambda>d n. d @ u ''/'' @ n),
       gTTS = (\<lambda>text lang. None),
       tts_save = (\<lambda>p. Saved),
       os_name = u ''posix'',
       os_system = (\<lambda>c. None),
       pygame_start = (\<lambda>p. None),
       get_busy = (\<lambda>k. Inr True),
       pygame_quit = None,
       playsound = (\<lambda>p. None),
       os_remove = (\<lambda>p. None) \<rparr>"

definition temp_path :: "audio_env \<Rightarrow> pystr option" where
  "temp_path env =
     (case gettempdir env of
        Inl e \<Rightarrow> None
      | Inr temp_dir \<Rightarrow>
          Some (path_join env temp_dir (u ''speech_'' @ str_int (time_now env) @ u ''.mp3'')))"

definition cleaned_up :: "audio_env \<Rightarrow> world \<Rightarrow> world \<Rightarrow> bool" where
  "cleaned_up env w w' =
     (case temp_path env of
        None \<Rightarrow> files w' = files w
      | Some p \<Rightarrow>
          (case os_remove env p of
             None \<Rightarrow> p \<notin> files w'
           | Some e \<Rightarrow>
               p \<in> files w' \<longrightarrow>
                 stdout w' \<noteq> []
               \<and> last (stdout w') = u ''Error removing temp file: '' @ str_exn e))"

section \<open>Properties of normalize\_text\<close>

lemma normalize_text_str:
  "normalize_text U (PStr t) =
     Inr (PStr (filter (\<lambda>c. combining U c = 0) (nfkd U (str_lower U t))))"
  by (simp add: normalize_text_def)

text \<open>
  C8: \<open>normalize_text\<close> applied to \<open>None\<close> returns \<open>None\<close>: neither a string nor an
  exception.
\<close>

theorem normalize_text_None: "normalize_text U PNone = Inr PNone"
  by (simp add: normalize_text_def)

text \<open>
  C10: whatever the tables of the runtime are, and for every string, the call returns a
  string, and every code point of that string has combining class zero.
\<close>

theorem normalize_text_no_combining:
  "\<exists>r. normalize_text U (PStr t) = Inr (PStr r) \<and> list_all (\<lambda>c. combining U c = 0) r"
  by (simp add: normalize_text_str list_all_iff)

text \<open>
  C9: \<open>Caf\<close> followed by U+00E9, and \<open>cafe\<close>, both normalise to \<open>cafe\<close>. The
  hypotheses are the entries of the Unicode tables that the two strings touch: the
  lowercase of both strings, the decomposition of U+00E9 into \<open>e\<close> and U+0301, the
  class 230 of U+0301, and that \<open>c\<close>, \<open>a\<close>, \<open>f\<close>, \<open>e\<close> have no decomposition and
  class zero.
\<close>

theorem normalize_text_cafe:
  assumes "str_lower U (u ''Caf'' @ [233]) = u ''caf'' @ [233]"
    and "str_lower U (u ''cafe'') = u ''cafe''"
    and "full_decomp U 233 = [101, 769]"
    and "\<forall>c \<in> set (u ''cafe''). full_decomp U c = [c] \<and> combining U c = 0"
    and "combining U 769 = 230"
  shows "normalize_text U (PStr (u ''Caf'' @ [233])) = Inr (PStr (u ''cafe''))
       \<and> normalize_text U (PStr (u ''cafe'')) = Inr (PStr (u ''cafe''))"
  using assms
  by (simp add: normalize_text_str nfkd_def canonical_order_def)

theorem normalize_text_cafe_witness:
  "normalize_text ucd_excerpt (PStr (u ''Caf'' @ [233])) = Inr (PStr (u ''cafe''))
   \<and> normalize_text ucd_excerpt (PStr (u ''cafe'')) = Inr (PStr (u ''cafe''))"
  using normalize_text_cafe [of ucd_excerpt]
  by (simp add: ucd_excerpt_def excerpt_lower_cp_def excerpt_decomp_def excerpt_combining_def)

text \<open>
  C2: idempotence fails on the trade mark sign U+2122. It has no lowercase, so
  \<open>lower\<close> leaves it; NFKD then replaces it by the capital letters \<open>TM\<close>, which the
  function returns, although its docstring promises lowercase text. A second call
  lowers them to \<open>tm\<close>. The lowercasing comes before the decomposition and misses
  the capitals that the decomposition brings in.
\<close>

theorem normalize_text_trade_mark:
  "normalize_text ucd_excerpt (PStr [8482]) = Inr (PStr (u ''TM''))
   \<and> normalize_text ucd_excerpt (PStr (u ''TM'')) = Inr (PStr (u ''tm''))"
  by (simp add: normalize_text_str nfkd_def canonical_order_def ucd_excerpt_def
      excerpt_lower_cp_def excerpt_decomp_def excerpt_combining_def)

text \<open>
  What does hold: when full decompositions are themselves fully decomposed, as they are
  in Unicode, a result that lowercasing leaves unchanged is a fixed point.
\<close>

lemma insert_mark_starter: "ccc c = 0 \<Longrightarrow> insert_mark ccc c ps = c # ps"
  by (cases ps) simp_all

lemma fold_insert_mark_starters:
  "\<forall>c \<in> set s. ccc c = 0 \<Longrightarrow> fold (insert_mark ccc) s acc = rev s @ acc"
  by (induction s arbitrary: acc) (simp_all add: insert_mark_starter)

lemma canonical_order_starters:
  "\<forall>c \<in> set s. ccc c = 0 \<Longrightarrow> canonical_order ccc s = s"
  by (simp add: canonical_order_def fold_insert_mark_starters)

lemma set_insert_mark: "set (insert_mark ccc c ps) = insert c (set ps)"
  by (induction ps) auto

lemma set_fold_insert_mark: "set (fold (insert_mark ccc) s acc) = set s \<union> set acc"
  by (induction s arbitrary: acc) (auto simp: set_insert_mark)

lemma set_canonical_order: "set (canonical_order ccc s) = set s"
  by (simp add: canonical_order_def set_fold_insert_mark)

lemma concat_map_fixed: "\<forall>c \<in> set r. f c = [c] \<Longrightarrow> concat (map f r) = r"
  by (induction r) simp_all

lemma normalize_text_fixed_if_lowercase:
  assumes closed: "\<forall>c. \<forall>d \<in> set (full_decomp U c). full_decomp U d = [d]"
    and r: "normalize_text U (PStr t) = Inr (PStr r)"
    and lower: "str_lower U r = r"
  shows "normalize_text U (PStr r) = Inr (PStr r)"
proof -
  from r have r_def: "r = filter (\<lambda>c. combining U c = 0) (nfkd U (str_lower U t))"
    by (simp add: normalize_text_str)
  have starters: "\<forall>c \<in> set r. combining U c = 0"
    by (simp add: r_def)
  have "set r \<subseteq> set (concat (map (full_decomp U) (str_lower U t)))"
    by (auto simp: r_def nfkd_def set_canonical_order)
  with closed have "\<forall>c \<in> set r. full_decomp U c = [c]"
    by auto
  then have "concat (map (full_decomp U) r) = r"
    by (rule concat_map_fixed)
  then have "nfkd U r = r"
    using starters by (simp add: nfkd_def canonical_order_starters)
  moreover have "filter (\<lambda>c. combining U c = 0) r = r"
    using starters by simp
  ultimately show ?thesis
    by (simp add: normalize_text_str lower)
qed

section \<open>Properties of translate\_text\<close>

lemma API_KEY_nonempty: "API_KEY \<noteq> []"
  by (simp add: API_KEY_def)

lemma candidate_text_Some:
  "candidate_text c = Some t \<longleftrightarrow> (\<exists>cd. c = PDict cd \<and> map_of cd (u ''text'') = Some t)"
  by (cases c) auto

lemma candidates_Some:
  "candidates data = Some cs \<longleftrightarrow>
     (\<exists>d. data = PDict d \<and> map_of d (u ''translations'') = Some (PList cs))"
  by (cases data) (auto split: option.splits pyval.splits)

lemma first_candidate_text_Some:
  "first_candidate_text data = Some t \<longleftrightarrow>
     (\<exists>d cd cs. data = PDict d \<and> map_of d (u ''translations'') = Some (PList (PDict cd # cs))
        \<and> map_of cd (u ''text'') = Some t)"
  by (auto simp: first_candidate_text_def candidates_Some candidate_text_Some
      split: option.splits list.splits)

lemma lookup_well_formed:
  assumes "first_candidate_text data = Some t"
  shows "has_translations data = Inr True" and "first_translation_text data = Inr t"
  using assms
  by (auto simp: first_candidate_text_Some has_translations_def first_translation_text_def bnd_def)



lemma translate_text_unfold:
  "translate_text post text target_language =
     (case translate_request post (request_params API_KEY text target_language) of
        Inr v \<Rightarrow> Inr v
      | Inl e \<Rightarrow>
          if class_of e = RequestException
          then Inr (PStr (u ''[Translation Error: '' @ str_exn e @ u '']''))
          else if is_Exception e
          then Inr (PStr (u ''[Error: '' @ str_exn e @ u '']''))
          else Inl e)"
  using API_KEY_nonempty by (simp add: translate_text_def Let_def)


text \<open>
  C5: when the endpoint answers with a success status and a body that holds a non-empty
  list of translation candidates, the first with a text, \<open>translate_text\<close> returns
  that text.
\<close>

theorem translate_text_first_candidate:
  assumes "post API_URL (request_params API_KEY text target_language) 10 = Inr response"
    and "raise_for_status response = None"
    and "json response = Inr data"
    and "candidates data = Some (c # cs)"
    and "candidate_text c = Some t"
  shows "translate_text post text target_language = Inr t"
proof -
  from assms(4,5) have "first_candidate_text data = Some t"
    by (simp add: first_candidate_text_def)
  from lookup_well_formed [OF this] assms(1-3) show ?thesis
    by (simp add: translate_text_unfold translate_request_def bnd_def)
qed

theorem translate_text_first_candidate_witness:
  "translate_text
     (responds_with (PDict [(u ''translations'',
        PList [PDict [(u ''detected_source_language'', PStr (u ''EN'')),
                      (u ''text'', PStr (u ''Hola''))]])]))
     (u ''Hello'') (u ''ES'') = Inr (PStr (u ''Hola''))"
  using translate_text_first_candidate
    [of "responds_with (PDict [(u ''translations'',
        PList [PDict [(u ''detected_source_language'', PStr (u ''EN'')),
                      (u ''text'', PStr (u ''Hola''))]])])"
        "u ''Hello''" "u ''ES''"
        "\<lparr> raise_for_status = None, json = Inr (PDict [(u ''translations'',
        PList [PDict [(u ''detected_source_language'', PStr (u ''EN'')),
                      (u ''text'', PStr (u ''Hola''))]])]) \<rparr>"]
  by (simp add: responds_with_def)

text \<open>
  C4: when the request fails, be it that \<open>requests.post\<close> raises a
  \<open>RequestException\<close> (a transport failure) or that \<open>raise_for_status\<close> does (a
  status that is not a success), \<open>translate_text\<close> raises nothing and returns a string
  that begins with \<open>[Translation Error: \<close> and contains the detail of the failure.
\<close>

theorem translate_text_request_failure:
  assumes "post API_URL (request_params API_KEY text target_language) 10
             = Inl (Exn RequestException detail)
         \<or> (\<exists>response.
              post API_URL (request_params API_KEY text target_language) 10 = Inr response
            \<and> raise_for_status response = Some (Exn RequestException detail))"
  shows "\<exists>s. translate_text post text target_language = Inr (PStr s)
           \<and> prefix (u ''[Translation Error: '') s \<and> sublist detail s"
proof -
  have "translate_text post text target_language
          = Inr (PStr (u ''[Translation Error: '' @ detail @ u '']''))"
    using assms by (auto simp: translate_text_unfold translate_request_def bnd_def)
  moreover have "sublist detail (u ''[Translation Error: '' @ detail @ u '']'')"
    by (rule sublist_appendI)
  moreover have "prefix (u ''[Translation Error: '') (u ''[Translation Error: '' @ detail @ u '']'')"
    by (rule prefixI) simp
  ultimately show ?thesis by blast
qed




theorem translate_text_request_failure_witness:
  "\<exists>s. translate_text (\<lambda>url params timeout. Inl (Exn RequestException (u ''timed out'')))
          (u ''Hello'') (u ''ES'') = Inr (PStr s)
       \<and> prefix (u ''[Translation Error: '') s \<and> sublist (u ''timed out'') s"
  using translate_text_request_failure
    [of "\<lambda>url params timeout. Inl (Exn RequestException (u ''timed out''))"
        "u ''Hello''" "u ''ES''" "u ''timed out''"]
  by simp


section \<open>Properties of capture\_user\_voice\<close>

lemma sr_listen_no_timeout:
  "sr_listen s None limit =
     (case s of
        Speech delay audio \<Rightarrow> Some (Inr audio)
      | Silence \<Rightarrow> None
      | StreamError m \<Rightarrow> Some (Inl (Exn OtherException m)))"
  by (simp add: sr_listen_def split: sound.splits)

text \<open>
  With \<open>timeout=None\<close> the handler for \<open>WaitTimeoutError\<close> is never reached.
\<close>

lemma sr_listen_never_times_out:
  "sr_listen s None limit \<noteq> Some (Inl (Exn WaitTimeoutError m))"
  by (simp add: sr_listen_no_timeout split: sound.splits)




section \<open>Properties of play\_audio\<close>

lemma wait_while_busy_ends:
  "busy (k + n) \<noteq> Inr True \<Longrightarrow>
     \<exists>r. wait_while_busy busy k = Some r \<and> (\<forall>e. r = Some e \<longrightarrow> (\<exists>j. busy j = Inl e))"
proof (induction n arbitrary: k)
  case 0
  then show ?case
    by (subst wait_while_busy.simps) (auto split: sum.splits)
next
  case (Suc n)
  then have "busy (Suc k + n) \<noteq> Inr True" by simp
  from Suc.IH [OF this] show ?case
    by (subst wait_while_busy.simps) (auto split: sum.splits)
qed

lemma pygame_play_ends:
  assumes "only_errors env" and "\<exists>k. get_busy env k \<noteq> Inr True"
  shows "\<exists>r. pygame_play env p = Some r \<and> (\<forall>e. r = Some e \<longrightarrow> is_Exception e)"
proof -
  from assms(2) obtain n where "get_busy env (0 + n) \<noteq> Inr True"
    by auto
  from wait_while_busy_ends [of "get_busy env" 0 n, OF this] obtain r where
    r: "wait_while_busy (get_busy env) 0 = Some r" "\<forall>e. r = Some e \<longrightarrow> (\<exists>j. get_busy env j = Inl e)"
    by blast
  with assms(1) have "\<forall>e. r = Some e \<longrightarrow> is_Exception e"
    by (auto simp: only_errors_def)
  with r(1) assms(1) show ?thesis
    by (auto simp: pygame_play_def only_errors_def split: option.splits)
qed

lemma play_windows_ends:
  assumes "only_errors env" and "\<exists>k. get_busy env k \<noteq> Inr True"
  shows "\<exists>w'. play_windows env p w = Some (None, w') \<and> files w' = files w"
proof -
  from pygame_play_ends [OF assms] obtain r where
    r: "pygame_play env p = Some r" "\<forall>e. r = Some e \<longrightarrow> is_Exception e"
    by blast
  with assms(1) show ?thesis
    by (auto simp: play_windows_def only_errors_def print_def Let_def split: option.splits)
qed

lemma synthesize_and_play_ends:
  assumes "only_errors env" and "playback_ends env"
  shows "\<exists>r w'. synthesize_and_play env text language w = Some (r, temp_path env, w')
           \<and> (\<forall>e. r = Some e \<longrightarrow> is_Exception e)
           \<and> (temp_path env = None \<longrightarrow> files w' = files w)"
proof (cases "gettempdir env")
  case (Inl e)
  with assms(1) show ?thesis
    by (auto simp: synthesize_and_play_def temp_path_def only_errors_def)
next
  case (Inr temp_dir)
  define p where "p = path_join env temp_dir (u ''speech_'' @ str_int (time_now env) @ u ''.mp3'')"
  have tp: "temp_path env = Some p"
    by (simp add: temp_path_def Inr p_def)
  let ?w = "w\<lparr>files := insert p (files w)\<rparr>"
  have body: "synthesize_and_play env text language w =
      (case gTTS env text language of
         Some e \<Rightarrow> Some (Some e, Some p, w)
       | None \<Rightarrow>
           (case tts_save env p of
              OpenFailed e \<Rightarrow> Some (Some e, Some p, w)
            | WriteFailed e \<Rightarrow> Some (Some e, Some p, ?w)
            | Saved \<Rightarrow>
                if os_name env = u ''posix'' then
                  (case os_system env (u ''mpg123 -q '' @ p) of
                     Some e \<Rightarrow> Some (Some e, Some p, ?w)
                   | None \<Rightarrow> Some (None, Some p, ?w))
                else
                  (case play_windows env p ?w of
                     None \<Rightarrow> None
                   | Some (r, w') \<Rightarrow> Some (r, Some p, w'))))"
    unfolding synthesize_and_play_def Inr p_def Let_def by simp
  show ?thesis
  proof (cases "gTTS env text language")
    case (Some e)
    with assms(1) have "is_Exception e" by (auto simp: only_errors_def)
    with Some show ?thesis by (simp add: body tp)
  next
    case None
    show ?thesis
    proof (cases "tts_save env p")
      case Saved
      show ?thesis
      proof (cases "os_name env = u ''posix''")
        case True
        show ?thesis
        proof (cases "os_system env (u ''mpg123 -q '' @ p)")
          case None
          with \<open>gTTS env text language = None\<close> Saved True show ?thesis
            by (simp add: body tp)
        next
          case (Some e)
          with assms(1) have "is_Exception e" by (auto simp: only_errors_def)
          with \<open>gTTS env text language = None\<close> Saved True Some show ?thesis
            by (simp add: body tp)
        qed
      next
        case False
        with assms(2) have "\<exists>k. get_busy env k \<noteq> Inr True"
          by (simp add: playback_ends_def)
        from play_windows_ends [OF assms(1) this, of p ?w] obtain w' where
          "play_windows env p ?w = Some (None, w')"
          by blast
        with None Saved False show ?thesis
          by (simp add: body tp)
      qed
    next
      case (OpenFailed e)
      with assms(1) have "is_Exception e" by (auto simp: only_errors_def)
      with None OpenFailed show ?thesis by (simp add: body tp)
    next
      case (WriteFailed e)
      with assms(1) have "is_Exception e" by (auto simp: only_errors_def)
      with None WriteFailed show ?thesis by (simp add: body tp)
    qed
  qed
qed

lemma remove_temp_file_None:
  "remove_temp_file env None w = (None, w)"
  by (simp add: remove_temp_file_def)

lemma remove_temp_file_Some:
  assumes "only_errors env" and "p \<noteq> []"
  shows "\<exists>w'. remove_temp_file env (Some p) w = (None, w')
           \<and> (case os_remove env p of
                 None \<Rightarrow> p \<notin> files w'
               | Some e \<Rightarrow>
                   p \<in> files w' \<longrightarrow>
                     stdout w' \<noteq> []
                   \<and> last (stdout w') = u ''Error removing temp file: '' @ str_exn e)"
  using assms
  by (auto simp: remove_temp_file_def only_errors_def print_def split: option.splits)

lemma remove_temp_file_files_None:
  "remove_temp_file env None w = (r, w') \<Longrightarrow> files w' = files w"
  by (simp add: remove_temp_file_def)

text \<open>
  C7: for every text and language, whichever of the calls for synthesis, playback,
  writing and deleting fail, \<open>play_audio\<close> returns and no exception leaves it, and
  the transient file is cleaned up as far as the system allows: it is gone when
  \<open>os.remove\<close> works, and when \<open>os.remove\<close> fails the failure is printed and
  swallowed. The hypotheses: the failures are exceptions that derive from
  \<open>Exception\<close>; the playback ends; and the path is not the empty string, which
  \<open>os.path.join\<close> never returns for a file name that is not empty.
\<close>

theorem play_audio_cleans_up:
  assumes "only_errors env" and "playback_ends env" and "temp_path env \<noteq> Some []"
  shows "\<exists>w'. play_audio env text language debug w = Some (None, w') \<and> cleaned_up env w w'"
proof -
  define w0 where "w0 = (if debug
               then print (u ''Speaking in '' @ language @ u '': '' @ take 30 text
                           @ (if length text > 30 then u ''...'' else [])) w
               else w)"
  have files0: "files w0 = files w"
    by (simp add: w0_def print_def)
  from synthesize_and_play_ends [OF assms(1,2)] obtain r w1 where
    s: "synthesize_and_play env text language w0 = Some (r, temp_path env, w1)"
    and r: "\<forall>e. r = Some e \<longrightarrow> is_Exception e"
    and f1: "temp_path env = None \<longrightarrow> files w1 = files w0"
    by blast
  define w2 where "w2 = (case r of None \<Rightarrow> w1
       | Some e \<Rightarrow> print (u ''Error generating or playing audio: '' @ str_exn e) w1)"
  have handler: "(case r of
                    None \<Rightarrow> (None, w1)
                  | Some e \<Rightarrow>
                      if is_Exception e
                      then (None, print (u ''Error generating or playing audio: '' @ str_exn e) w1)
                      else (Some e, w1)) = (None, w2)"
    using r by (auto simp: w2_def split: option.splits)
  have files2: "files w2 = files w1"
    by (simp add: w2_def print_def split: option.splits)
  have unfold: "play_audio env text language debug w =
      (let (raised_in_finally, w') = remove_temp_file env (temp_path env) w2
       in Some (case raised_in_finally of Some e \<Rightarrow> Some e | None \<Rightarrow> None, w'))"
    unfolding play_audio_def w0_def [symmetric] Let_def s
    by (simp add: handler)
  show ?thesis
  proof (cases "temp_path env")
    case None
    then show ?thesis
      using f1 files0 files2
      by (simp add: unfold remove_temp_file_None cleaned_up_def)
  next
    case (Some p)
    with assms(3) have "p \<noteq> []" by auto
    from remove_temp_file_Some [OF assms(1) this, of w2] Some show ?thesis
      by (auto simp: unfold cleaned_up_def)
  qed
qed


theorem play_audio_cleans_up_witness:
  "only_errors windows_env \<and> playback_ends windows_env \<and> temp_path windows_env \<noteq> Some []
   \<and> (\<exists>w'. play_audio windows_env (u ''Hola'') (u ''es'') True \<lparr>files = {}, stdout = []\<rparr>
              = Some (None, w')
          \<and> cleaned_up windows_env \<lparr>files = {}, stdout = []\<rparr> w')"
proof -
  have 1: "only_errors windows_env"
    by (simp add: only_errors_def windows_env_def is_Exception_def)
  have "get_busy windows_env 3 \<noteq> Inr True"
    by (simp add: windows_env_def)
  then have 2: "playback_ends windows_env"
    unfolding playback_ends_def by blast
  have 3: "temp_path windows_env \<noteq> Some []"
    by (simp add: temp_path_def windows_env_def)
  from 1 2 3 play_audio_cleans_up [OF 1 2 3] show ?thesis
    by blast
qed

text \<open>The two runs, evaluated: the lines printed and the files left behind.\<close>

lemma str_int_example: "str_int 1700000000 = u ''1700000000''"
  by (simp add: str_int_def)

lemma wait_example:
  "wait_while_busy (get_busy windows_env) 0
     = Some (Some (Exn OtherException (u ''mixer not initialized'')))"
  by (simp add: wait_while_busy.simps windows_env_def)

lemma windows_env_fields:
  "gettempdir windows_env = Inr (u ''C:/Temp'')"
  "time_now windows_env = 1700000000"
  "path_join windows_env = (\<lambda>d n. d @ u ''/'' @ n)"
  "gTTS windows_env = (\<lambda>text lang. None)"
  "tts_save windows_env = (\<lambda>p. Saved)"
  "os_name windows_env = u ''nt''"
  "pygame_start windows_env = (\<lambda>p. None)"
  "playsound windows_env = (\<lambda>p. None)"
  "os_remove windows_env = (\<lambda>p. Some (Exn OtherException (u ''file is in use'')))"
  by (simp_all add: windows_env_def)

lemma play_audio_windows_env:
  "play_audio windows_env (u ''Hola'') (u ''es'') True \<lparr>files = {}, stdout = []\<rparr>
     = Some (None,
         \<lparr>files = {u ''C:/Temp/speech_1700000000.mp3''},
          stdout = [u ''Speaking in es: Hola'',
                    u ''Pygame error: mixer not initialized'',
                    u ''Error removing temp file: file is in use'']\<rparr>)"
  by (simp add: play_audio_def synthesize_and_play_def play_windows_def pygame_play_def
      remove_temp_file_def print_def wait_example str_int_example is_Exception_def
      windows_env_fields Let_def)

lemma play_audio_posix_env:
  "play_audio posix_env (u ''Hola'') (u ''es'') True \<lparr>files = {}, stdout = []\<rparr>
     = Some (None, \<lparr>files = {}, stdout = [u ''Speaking in es: Hola'']\<rparr>)"
  by (simp add: play_audio_def synthesize_and_play_def remove_temp_file_def print_def
      str_int_example posix_env_def Let_def)

end
